theory Spec2Isabelle
  imports Complex_Main
begin

section \<open>Always Online connector of the Caterpillar proxy (alwaysonline.py)\<close>

text \<open>
  A shallow embedding of \<^verbatim>\<open>alwaysonline.py\<close>. Python \<^verbatim>\<open>str\<close> values are lists of
  Unicode code points, \<^verbatim>\<open>bytes\<close> values are lists of 8-bit characters, HTTP status
  codes are integers. Every call that leaves the process (the document store, the
  HTTP session, the codec named by \<^verbatim>\<open>CLIENT_ENCODING\<close>) is a field of a record
  \<open>world\<close> that says what the call answers or which exception it raises; an
  exception is a value of type \<open>exn\<close> and a function that can raise returns
  \<open>exn + 'a\<close>, with \<open>Inl\<close> for the exception.
\<close>

subsection \<open>Strings and bytes\<close>

type_synonym pystr = "nat list"
type_synonym bytes = "char list"

definition py :: "string \<Rightarrow> pystr" where
  "py s = map of_char s"

fun startswith :: "'a list \<Rightarrow> 'a list \<Rightarrow> bool" where
  "startswith xs [] = True"
| "startswith [] (p # ps) = False"
| "startswith (x # xs) (p # ps) = (x = p \<and> startswith xs ps)"

text \<open>The test \<^verbatim>\<open>p in s\<close> of Python on two strings.\<close>

fun contains :: "'a list \<Rightarrow> 'a list \<Rightarrow> bool" where
  "contains p [] = (p = [])"
| "contains p (x # xs) = (startswith (x # xs) p \<or> contains p xs)"

text \<open>Decimal rendering of an integer, as \<^verbatim>\<open>str(n)\<close> and an f-string do.\<close>

fun digits :: "nat \<Rightarrow> pystr" where
  "digits n = (if n < 10 then [48 + n] else digits (n div 10) @ [48 + n mod 10])"

definition str_int :: "int \<Rightarrow> pystr" where
  "str_int i = (if i < 0 then 45 # digits (nat (- i)) else digits (nat i))"

subsection \<open>The character classes of the regular expression in \<^verbatim>\<open>query_to_serp\<close>\<close>

text \<open>
  The pattern is a \<^verbatim>\<open>str\<close> pattern, so \<^verbatim>\<open>\w\<close> and \<^verbatim>\<open>\s\<close> are the Unicode classes:
  \<^verbatim>\<open>\w\<close> is every alphanumeric character and the underscore, \<^verbatim>\<open>\s\<close> is every
  whitespace character. Below code point 128 both classes are written out; above it
  they are read from the Unicode character database, which is a parameter.
\<close>

record ucd =
  alnum_hi :: "nat \<Rightarrow> bool"
  space_hi :: "nat \<Rightarrow> bool"

definition ascii_alnum :: "nat \<Rightarrow> bool" where
  "ascii_alnum c = ((48 \<le> c \<and> c \<le> 57) \<or> (65 \<le> c \<and> c \<le> 90) \<or> (97 \<le> c \<and> c \<le> 122))"

definition ascii_space :: "nat \<Rightarrow> bool" where
  "ascii_space c = ((9 \<le> c \<and> c \<le> 13) \<or> (28 \<le> c \<and> c \<le> 32))"

definition is_alnum :: "ucd \<Rightarrow> nat \<Rightarrow> bool" where
  "is_alnum u c = (if c < 128 then ascii_alnum c else alnum_hi u c)"

definition re_space :: "ucd \<Rightarrow> nat \<Rightarrow> bool" where
  "re_space u c = (if c < 128 then ascii_space c else space_hi u c)"

definition re_word :: "ucd \<Rightarrow> nat \<Rightarrow> bool" where
  "re_word u c = (is_alnum u c \<or> c = 95)"

text \<open>
  \<^verbatim>\<open>re.sub(r'^https?:\/\/|[^\w\s]', ' ', url)\<close>. The first alternative is anchored, so
  it can match at position 0 only, where it is tried before the second one and takes
  the optional \<^verbatim>\<open>s\<close> when it can; every match is replaced by one space and the scan
  goes on behind the match. Behind position 0 only the second alternative, one
  character that is neither \<^verbatim>\<open>\w\<close> nor \<^verbatim>\<open>\s\<close>, can match.
\<close>

definition sub_char :: "ucd \<Rightarrow> nat \<Rightarrow> nat" where
  "sub_char u c = (if \<not> re_word u c \<and> \<not> re_space u c then 32 else c)"

definition serp_query :: "ucd \<Rightarrow> pystr \<Rightarrow> pystr" where
  "serp_query u url =
     (if startswith url (py ''https://'') then 32 # map (sub_char u) (drop 8 url)
      else if startswith url (py ''http://'') then 32 # map (sub_char u) (drop 7 url)
      else map (sub_char u) url)"

subsection \<open>Exceptions, JSON values and HTTP responses\<close>

text \<open>
  \<open>LibraryError m\<close> is any exception that a library call raises on its own account
  (a refused connection, a timeout, a body that is not JSON); the other constructors
  are the exceptions that the code of this module can cause itself. The text that
  \<^verbatim>\<open>str(e)\<close> gives an exception is a field of the world.
\<close>

datatype exn =
    NotFoundError
  | LibraryError pystr
  | UnicodeError
  | AttributeError
  | KeyError pystr
  | IndexError
  | TypeError
  | InvalidURL

text \<open>
  The value of \<^verbatim>\<open>response.json()\<close>. An object is the list of its members; a number
  is used through its truth value only.
\<close>

datatype json =
    JNull
  | JBool bool
  | JNum rat
  | JStr pystr
  | JArr "json list"
  | JObj "(pystr \<times> json) list"

fun truthy :: "json \<Rightarrow> bool" where
  "truthy JNull = False"
| "truthy (JBool b) = b"
| "truthy (JNum n) = (n \<noteq> 0)"
| "truthy (JStr s) = (s \<noteq> [])"
| "truthy (JArr xs) = (xs \<noteq> [])"
| "truthy (JObj kvs) = (kvs \<noteq> [])"

text \<open>\<^verbatim>\<open>x.get(k, d)\<close>: only a dict has the method.\<close>

fun dict_get :: "json \<Rightarrow> pystr \<Rightarrow> json \<Rightarrow> exn + json" where
  "dict_get (JObj kvs) k d = Inr (case map_of kvs k of Some v \<Rightarrow> v | None \<Rightarrow> d)"
| "dict_get x k d = Inl AttributeError"

text \<open>\<^verbatim>\<open>x[k]\<close> with a string key, and \<^verbatim>\<open>x[0]\<close>.\<close>

fun subscript_key :: "json \<Rightarrow> pystr \<Rightarrow> exn + json" where
  "subscript_key (JObj kvs) k = (case map_of kvs k of Some v \<Rightarrow> Inr v | None \<Rightarrow> Inl (KeyError k))"
| "subscript_key x k = Inl TypeError"

fun subscript_zero :: "json \<Rightarrow> exn + json" where
  "subscript_zero (JArr []) = Inl IndexError"
| "subscript_zero (JArr (v # vs)) = Inr v"
| "subscript_zero (JStr []) = Inl IndexError"
| "subscript_zero (JStr (c # cs)) = Inr (JStr [c])"
| "subscript_zero (JObj kvs) = Inl (KeyError (py ''0''))"
| "subscript_zero x = Inl TypeError"

record response =
  status_code :: int
  content :: bytes
  json_body :: "exn + json"

subsection \<open>The world outside the process\<close>

record document =
  doc_url :: pystr
  doc_content :: pystr
  doc_timestamp :: rat

text \<open>
  One field for each call site that leaves the process. A codec answers \<open>None\<close>
  where Python raises \<^verbatim>\<open>UnicodeError\<close>. The two \<open>es_\<close> fields say whether the document
  store raises before it looks at its documents; the \<open>_get\<close> and \<open>_post\<close> fields are
  the calls of \<^verbatim>\<open>requests\<close> at lines 47, 63, 111, 124 and 160. The last five fields
  are the sockets of the relay of a request that is not a GET: the \<open>n\<close>-th
  \<^verbatim>\<open>send\<close> on the upstream socket and the \<open>n\<close>-th \<^verbatim>\<open>recv\<close> on the client's.
\<close>

record world =
  tables :: ucd
  client_decode :: "bytes \<Rightarrow> pystr option"
  client_encode :: "pystr \<Rightarrow> bytes option"
  exn_str :: "exn \<Rightarrow> pystr"
  sha256_hexdigest :: "pystr \<Rightarrow> pystr"
  utc_now :: rat
  librey_url :: pystr
  es_get_raises :: "pystr \<Rightarrow> exn option"
  es_index_raises :: "pystr \<Rightarrow> exn option"
  wayback_get :: "pystr \<Rightarrow> exn + response"
  snapshot_get :: "pystr \<Rightarrow> exn + response"
  origin_get :: "pystr \<Rightarrow> exn + response"
  serp_get :: "pystr \<Rightarrow> exn + response"
  llm_post :: "pystr \<Rightarrow> exn + response"
  sock_open_raises :: "exn option"
  tls_wrap_raises :: "exn option"
  sock_connect_raises :: "exn option"
  sock_send_raises :: "nat \<Rightarrow> exn option"
  conn_recv :: "nat \<Rightarrow> exn + bytes"

text \<open>
  What one call of \<^verbatim>\<open>connect\<close> changes and what it leaves behind: its two local
  variables, the documents of the store, and the calls it made, in order. The entries
  of the trace are the calls of the six source functions, the error lines of the
  logger and the writes to the two sockets.
\<close>

datatype event =
    CacheGet pystr
  | ArchiveFetch pystr
  | OriginFetch pystr
  | CachePut pystr bytes
  | SearchQuery pystr
  | Summarize bytes
  | LogError pystr
  | ConnSend bytes
  | SockConnect
  | SockSend bytes

record frame =
  connected :: bool
  buffered :: bytes
  store :: "pystr \<rightharpoonup> document"
  trace :: "event list"

definition emit :: "event \<Rightarrow> frame \<Rightarrow> frame" where
  "emit e f = f\<lparr>trace := trace f @ [e]\<rparr>"

subsection \<open>The document store\<close>

definition es_get :: "world \<Rightarrow> (pystr \<rightharpoonup> document) \<Rightarrow> pystr \<Rightarrow> exn + document" where
  "es_get w docs url_id =
     (case es_get_raises w url_id of
        Some e \<Rightarrow> Inl e
      | None \<Rightarrow> (case docs url_id of None \<Rightarrow> Inl NotFoundError | Some d \<Rightarrow> Inr d))"

definition es_index ::
  "world \<Rightarrow> (pystr \<rightharpoonup> document) \<Rightarrow> pystr \<Rightarrow> document \<Rightarrow> exn + (pystr \<rightharpoonup> document)" where
  "es_index w docs url_id body =
     (case es_index_raises w url_id of
        Some e \<Rightarrow> Inl e
      | None \<Rightarrow> Inr (docs(url_id \<mapsto> body)))"

subsection \<open>The sources\<close>

definition generate_id :: "world \<Rightarrow> pystr \<Rightarrow> pystr" where
  "generate_id w url = sha256_hexdigest w url"

text \<open>
  Lines 51 to 70, the body of the \<^verbatim>\<open>try\<close>; every \<open>Inl\<close> is caught by the bare
  \<^verbatim>\<open>except\<close> of line 71. \<^verbatim>\<open>requests.get\<close> of something that is not a string raises.
\<close>

definition archive_lookup :: "world \<Rightarrow> response \<Rightarrow> exn + int \<times> bytes" where
  "archive_lookup w response =
     (case json_body response of
        Inl e \<Rightarrow> Inl e
      | Inr data \<Rightarrow>
     (case dict_get data (py ''archived_snapshots'') (JObj []) of
        Inl e \<Rightarrow> Inl e
      | Inr archived_snapshots \<Rightarrow>
     (case dict_get archived_snapshots (py ''closest'') (JObj []) of
        Inl e \<Rightarrow> Inl e
      | Inr closest_snapshot \<Rightarrow>
          if truthy closest_snapshot then
            (case dict_get closest_snapshot (py ''url'') (JStr []) of
               Inl e \<Rightarrow> Inl e
             | Inr archived_url \<Rightarrow>
                 if truthy archived_url then
                   (case archived_url of
                      JStr a \<Rightarrow>
                        (case snapshot_get w a of
                           Inl e \<Rightarrow> Inl e
                         | Inr archived_page_response \<Rightarrow>
                             if status_code archived_page_response = 200
                             then Inr (200, content archived_page_response)
                             else Inr (status_code archived_page_response, []))
                    | _ \<Rightarrow> Inl InvalidURL)
                 else Inr (404, []))
          else Inr (404, []))))"

text \<open>The request of line 47 stands before the \<^verbatim>\<open>try\<close>.\<close>

definition fetch_cache_from_internet_archive :: "world \<Rightarrow> pystr \<Rightarrow> exn + int \<times> bytes" where
  "fetch_cache_from_internet_archive w url =
     (case wayback_get w (py ''http://archive.org/wayback/available?url='' @ url) of
        Inl e \<Rightarrow> Inl e
      | Inr response \<Rightarrow>
          if status_code response = 200 then
            (case archive_lookup w response of
               Inl e \<Rightarrow> Inr (502, [])
             | Inr r \<Rightarrow> Inr r)
          else Inr (status_code response, []))"

definition fetch_cache_from_elasticsearch :: "world \<Rightarrow> frame \<Rightarrow> pystr \<Rightarrow> (int \<times> bytes) \<times> frame" where
  "fetch_cache_from_elasticsearch w f url =
     (let url_id = generate_id w url in
      case es_get w (store f) url_id of
        Inr result \<Rightarrow>
          (case client_encode w (doc_content result) of
             Some b \<Rightarrow> ((200, b), f)
           | None \<Rightarrow>
               ((502, []),
                emit (LogError (py ''Error fetching from Elasticsearch: '' @ exn_str w UnicodeError)) f))
      | Inl e \<Rightarrow>
          if e = NotFoundError then ((404, []), f)
          else ((502, []), emit (LogError (py ''Error fetching from Elasticsearch: '' @ exn_str w e)) f))"

text \<open>
  The document is built before \<^verbatim>\<open>es.index\<close> is called, so content that does not decode
  raises inside the \<^verbatim>\<open>try\<close> and the store is not called. The function returns nothing
  and raises nothing: it returns the frame.
\<close>

definition push_cache_to_elasticsearch :: "world \<Rightarrow> frame \<Rightarrow> pystr \<Rightarrow> bytes \<Rightarrow> frame" where
  "push_cache_to_elasticsearch w f url data =
     (let url_id = generate_id w url; timestamp = utc_now w in
      case client_decode w data of
        None \<Rightarrow> emit (LogError (py ''Error caching to Elasticsearch: '' @ exn_str w UnicodeError)) f
      | Some text \<Rightarrow>
          (case es_index w (store f) url_id
                  \<lparr>doc_url = url, doc_content = text, doc_timestamp = timestamp\<rparr> of
             Inl e \<Rightarrow> emit (LogError (py ''Error caching to Elasticsearch: '' @ exn_str w e)) f
           | Inr docs \<Rightarrow> f\<lparr>store := docs\<rparr>))"

text \<open>
  An \<^verbatim>\<open>encode\<close> inside an \<^verbatim>\<open>except\<close> block is outside every \<^verbatim>\<open>try\<close>: when it raises,
  the function raises.
\<close>

definition encoded :: "world \<Rightarrow> pystr \<Rightarrow> exn + bytes" where
  "encoded w s = (case client_encode w s of Some b \<Rightarrow> Inr b | None \<Rightarrow> Inl UnicodeError)"

definition fetch_origin_server :: "world \<Rightarrow> pystr \<Rightarrow> exn + int \<times> bytes" where
  "fetch_origin_server w url =
     (case origin_get w url of
        Inr response \<Rightarrow> Inr (status_code response, content response)
      | Inl e \<Rightarrow>
          (case encoded w (exn_str w e) of
             Inl e' \<Rightarrow> Inl e'
           | Inr b \<Rightarrow> Inr (502, b)))"

definition serp_request :: "world \<Rightarrow> pystr \<Rightarrow> exn + int \<times> bytes" where
  "serp_request w url =
     (let q = serp_query (tables w) url;
          url' = librey_url w @ py ''/api.php?q='' @ q in
      case serp_get w url' of
        Inl e \<Rightarrow> Inl e
      | Inr response \<Rightarrow>
          if status_code response \<noteq> 200 then
            (case encoded w (py ''SERP API server returned status code '' @ str_int (status_code response)) of
               Inl e \<Rightarrow> Inl e
             | Inr b \<Rightarrow> Inr (status_code response, b))
          else Inr (200, content response))"

definition query_to_serp :: "world \<Rightarrow> pystr \<Rightarrow> exn + int \<times> bytes" where
  "query_to_serp w url =
     (case serp_request w url of
        Inr r \<Rightarrow> Inr r
      | Inl e \<Rightarrow>
          (case encoded w (py ''Error querying SERP API: '' @ exn_str w e) of
             Inl e' \<Rightarrow> Inl e'
           | Inr b \<Rightarrow> Inr (502, b)))"

definition llm_prompt :: "pystr \<Rightarrow> pystr" where
  "llm_prompt content_str =
     py ''The following content was scraped from a search engine. Based on this data, '' @
     py ''please infer the most likely information the user was originally searching for '' @
     py ''and explain it as accurately as possible:'' @ [10, 10] @ content_str"

text \<open>\<^verbatim>\<open>response_data['choices'][0]['message']['content'].encode(client_encoding)\<close>\<close>

definition llm_answer :: "world \<Rightarrow> json \<Rightarrow> exn + bytes" where
  "llm_answer w response_data =
     (case subscript_key response_data (py ''choices'') of
        Inl e \<Rightarrow> Inl e
      | Inr choices \<Rightarrow>
     (case subscript_zero choices of
        Inl e \<Rightarrow> Inl e
      | Inr choice \<Rightarrow>
     (case subscript_key choice (py ''message'') of
        Inl e \<Rightarrow> Inl e
      | Inr message \<Rightarrow>
     (case subscript_key message (py ''content'') of
        Inl e \<Rightarrow> Inl e
      | Inr llm_content \<Rightarrow>
          (case llm_content of
             JStr t \<Rightarrow> encoded w t
           | _ \<Rightarrow> Inl AttributeError)))))"

definition llm_request :: "world \<Rightarrow> bytes \<Rightarrow> exn + int \<times> bytes" where
  "llm_request w content' =
     (case client_decode w content' of
        None \<Rightarrow> Inl UnicodeError
      | Some content_str \<Rightarrow>
          (case llm_post w (llm_prompt content_str) of
             Inl e \<Rightarrow> Inl e
           | Inr response \<Rightarrow>
               if status_code response = 200 then
                 (case json_body response of
                    Inl e \<Rightarrow> Inl e
                  | Inr response_data \<Rightarrow>
                      (case llm_answer w response_data of
                         Inl e \<Rightarrow> Inl e
                       | Inr b \<Rightarrow> Inr (200, b)))
               else
                 (case encoded w (py ''ChatGPT API returned status code '' @ str_int (status_code response)) of
                    Inl e \<Rightarrow> Inl e
                  | Inr b \<Rightarrow> Inr (status_code response, b))))"

definition query_to_llm :: "world \<Rightarrow> bytes \<Rightarrow> exn + int \<times> bytes" where
  "query_to_llm w content' =
     (case llm_request w content' of
        Inr r \<Rightarrow> Inr r
      | Inl e \<Rightarrow>
          (case encoded w (py ''Error querying ChatGPT API: '' @ exn_str w e) of
             Inl e' \<Rightarrow> Inl e'
           | Inr b \<Rightarrow> Inr (502, b)))"

subsection \<open>\<^verbatim>\<open>AlwaysOnline.connect\<close>\<close>

text \<open>
  The arguments of \<^verbatim>\<open>connect\<close> but the client's socket, which is in the world. The
  port is used in one f-string and handed to the upstream socket; \<open>req_port\<close> is the
  text that the f-string gives it.
\<close>

record request =
  req_data :: bytes
  req_webserver :: bytes
  req_port :: pystr
  req_scheme :: bytes
  req_method :: bytes
  req_url :: bytes

definition buffer_size :: nat where
  "buffer_size = 8192"

text \<open>Lines 208 to 213. The three \<^verbatim>\<open>decode\<close> calls are outside every \<^verbatim>\<open>try\<close>.\<close>

definition target_url :: "world \<Rightarrow> request \<Rightarrow> exn + pystr" where
  "target_url w rq =
     (case client_decode w (req_url rq) of
        None \<Rightarrow> Inl UnicodeError
      | Some url \<Rightarrow>
     (case client_decode w (req_scheme rq) of
        None \<Rightarrow> Inl UnicodeError
      | Some target_scheme \<Rightarrow>
     (case client_decode w (req_webserver rq) of
        None \<Rightarrow> Inl UnicodeError
      | Some target_webserver \<Rightarrow>
          Inr (if \<not> contains (py ''://'') url
               then target_scheme @ py ''://'' @ target_webserver @ py '':'' @ req_port rq @ url
               else url))))"

text \<open>
  The four \<^verbatim>\<open>if not connected\<close> blocks of lines 216 to 245. Each returns the exception
  that left it, if one did, and the frame. Line 241 tests \<^verbatim>\<open>status_code\<close>, the status
  of the search, as the source does.
\<close>

definition try_cache :: "world \<Rightarrow> pystr \<Rightarrow> frame \<Rightarrow> exn option \<times> frame" where
  "try_cache w url f =
     (if \<not> connected f then
        (case fetch_cache_from_elasticsearch w (emit (CacheGet url) f) url of
           ((status, content'), f') \<Rightarrow>
             if status = 200
             then (None, f'\<lparr>buffered := buffered f' @ content', connected := True\<rparr>)
             else (None, f'))
      else (None, f))"

definition try_archive :: "world \<Rightarrow> pystr \<Rightarrow> frame \<Rightarrow> exn option \<times> frame" where
  "try_archive w url f =
     (if \<not> connected f then
        (let f' = emit (ArchiveFetch url) f in
         case fetch_cache_from_internet_archive w url of
           Inl e \<Rightarrow> (Some e, f')
         | Inr (status, content') \<Rightarrow>
             if status = 200
             then (None, f'\<lparr>buffered := buffered f' @ content', connected := True\<rparr>)
             else (None, f'))
      else (None, f))"

definition try_origin :: "world \<Rightarrow> pystr \<Rightarrow> frame \<Rightarrow> exn option \<times> frame" where
  "try_origin w url f =
     (if \<not> connected f then
        (let f' = emit (OriginFetch url) f in
         case fetch_origin_server w url of
           Inl e \<Rightarrow> (Some e, f')
         | Inr (status, content') \<Rightarrow>
             if status = 200 then
               (let f1 = f'\<lparr>buffered := buffered f' @ content'\<rparr>;
                    f2 = push_cache_to_elasticsearch w
                           (emit (CachePut url (buffered f1)) f1) url (buffered f1)
                in (None, f2\<lparr>connected := True\<rparr>))
             else (None, f'))
      else (None, f))"

definition try_search :: "world \<Rightarrow> pystr \<Rightarrow> frame \<Rightarrow> exn option \<times> frame" where
  "try_search w url f =
     (if \<not> connected f then
        (let f' = emit (SearchQuery url) f in
         case query_to_serp w url of
           Inl e \<Rightarrow> (Some e, f')
         | Inr (status, content') \<Rightarrow>
             if status = 200 then
               (let f1 = emit (Summarize content') f' in
                case query_to_llm w content' of
                  Inl e \<Rightarrow> (Some e, f1)
                | Inr (llm_status_code, llm_content) \<Rightarrow>
                    (let f2 = (if status = 200
                               then f1\<lparr>buffered := buffered f1 @ llm_content\<rparr>
                               else f1\<lparr>buffered := buffered f1 @ content'\<rparr>)
                     in (None, f2\<lparr>connected := True\<rparr>)))
             else (None, f'))
      else (None, f))"

text \<open>Lines 215 to 247, the branch of a GET request, with \<^verbatim>\<open>conn.send(buffered)\<close> last.\<close>

definition resolution_chain :: "world \<Rightarrow> pystr \<Rightarrow> frame \<Rightarrow> exn option \<times> frame" where
  "resolution_chain w url f0 =
     (case try_cache w url f0 of
        (Some e, f) \<Rightarrow> (Some e, f)
      | (None, f1) \<Rightarrow>
     (case try_archive w url f1 of
        (Some e, f) \<Rightarrow> (Some e, f)
      | (None, f2) \<Rightarrow>
     (case try_origin w url f2 of
        (Some e, f) \<Rightarrow> (Some e, f)
      | (None, f3) \<Rightarrow>
     (case try_search w url f3 of
        (Some e, f) \<Rightarrow> (Some e, f)
      | (None, f4) \<Rightarrow> (None, emit (ConnSend (buffered f4)) f4)))))"

text \<open>
  The loop of \<^verbatim>\<open>sendall\<close>, lines 199 to 206: it ends when the client's socket gives
  no bytes or raises (the timeout of one second is such an exception), or when the
  upstream socket raises; while the client keeps sending it does not end, and then
  the value is \<open>None\<close>. The first chunk is send number 0.
\<close>

partial_function (option) pump :: "world \<Rightarrow> nat \<Rightarrow> frame \<Rightarrow> frame option" where
  "pump w i f =
     (case conn_recv w i of
        Inl e \<Rightarrow> Some f
      | Inr chunk \<Rightarrow>
          if chunk = [] then Some f
          else (case sock_send_raises w (Suc i) of
                  Some e \<Rightarrow> Some f
                | None \<Rightarrow> pump w (Suc i) (emit (SockSend chunk) f)))"

declare pump.simps [code]

definition sendall :: "world \<Rightarrow> bytes \<Rightarrow> frame \<Rightarrow> (exn option \<times> frame) option" where
  "sendall w data f =
     (case sock_send_raises w 0 of
        Some e \<Rightarrow> Some (Some e, f)
      | None \<Rightarrow>
          (let f' = emit (SockSend data) f in
           if length data < buffer_size then Some (None, f')
           else (case pump w 0 f' of
                   None \<Rightarrow> None
                 | Some f'' \<Rightarrow> Some (None, f''))))"

text \<open>Lines 249 to 265, the branch of every other method.\<close>

definition relay :: "world \<Rightarrow> request \<Rightarrow> frame \<Rightarrow> (exn option \<times> frame) option" where
  "relay w rq f =
     (let is_ssl = (req_scheme rq \<in> set [''https'', ''tls'', ''ssl'']) in
      case sock_open_raises w of
        Some e \<Rightarrow> Some (Some e, f)
      | None \<Rightarrow>
          if is_ssl then
            (case tls_wrap_raises w of
               Some e \<Rightarrow> Some (Some e, f)
             | None \<Rightarrow>
                 (case sock_connect_raises w of
                    Some e \<Rightarrow> Some (Some e, f)
                  | None \<Rightarrow> sendall w (req_data rq) (emit SockConnect f)))
          else
            (case sock_connect_raises w of
               Some e \<Rightarrow> Some (Some e, f)
             | None \<Rightarrow> sendall w (req_data rq) (emit SockConnect f)))"

text \<open>
  \<^verbatim>\<open>connect\<close>, on the documents that the store holds when it is called. \<open>None\<close>: the
  call does not return. \<open>Some (Inl e, f)\<close>: it raises \<open>e\<close>. \<open>Some (Inr b, f)\<close>: it
  returns \<open>b\<close>.
\<close>

definition connect ::
  "world \<Rightarrow> request \<Rightarrow> (pystr \<rightharpoonup> document) \<Rightarrow> ((exn + bool) \<times> frame) option" where
  "connect w rq docs =
     (let f0 = \<lparr>connected = False, buffered = [], store = docs, trace = []\<rparr> in
      case target_url w rq of
        Inl e \<Rightarrow> Some (Inl e, f0)
      | Inr url \<Rightarrow>
          if req_method rq = ''GET'' then
            (case resolution_chain w url f0 of
               (Some e, f) \<Rightarrow> Some (Inl e, f)
             | (None, f) \<Rightarrow> Some (Inr (connected f), f))
          else
            (case relay w rq f0 of
               None \<Rightarrow> None
             | Some (Some e, f) \<Rightarrow> Some (Inl e, f)
             | Some (None, f) \<Rightarrow> Some (Inr (connected f), f)))"

subsection \<open>Reading a trace\<close>

datatype source = Cache | Archive | Origin | Search

text \<open>The sources that a trace calls, in order, and the cache writes it asks for.\<close>

fun attempts :: "event list \<Rightarrow> source list" where
  "attempts [] = []"
| "attempts (CacheGet u # es) = Cache # attempts es"
| "attempts (ArchiveFetch u # es) = Archive # attempts es"
| "attempts (OriginFetch u # es) = Origin # attempts es"
| "attempts (SearchQuery u # es) = Search # attempts es"
| "attempts (e # es) = attempts es"

fun puts :: "event list \<Rightarrow> (pystr \<times> bytes) list" where
  "puts [] = []"
| "puts (CachePut u b # es) = (u, b) # puts es"
| "puts (e # es) = puts es"

fun error_logs :: "event list \<Rightarrow> pystr list" where
  "error_logs [] = []"
| "error_logs (LogError m # es) = m # error_logs es"
| "error_logs (e # es) = error_logs es"

definition initial_frame :: "(pystr \<rightharpoonup> document) \<Rightarrow> frame" where
  "initial_frame docs = \<lparr>connected = False, buffered = [], store = docs, trace = []\<rparr>"

text \<open>The status and the body that the cache answers for a url on given documents.\<close>

definition cache_answer :: "world \<Rightarrow> (pystr \<rightharpoonup> document) \<Rightarrow> pystr \<Rightarrow> int \<times> bytes" where
  "cache_answer w docs url = fst (fetch_cache_from_elasticsearch w (initial_frame docs) url)"

text \<open>What a run of the chain shows: the exception that left it, the two variables, the
  sources it called and the cache writes it asked for.\<close>

definition observe :: "exn option \<times> frame \<Rightarrow> exn option \<times> bool \<times> bytes \<times> source list \<times> (pystr \<times> bytes) list" where
  "observe rf = (fst rf, connected (snd rf), buffered (snd rf), attempts (trace (snd rf)), puts (trace (snd rf)))"

text \<open>The loop of \<^verbatim>\<open>sendall\<close> ends at its \<open>n\<close>-th round.\<close>

definition round_ends :: "world \<Rightarrow> nat \<Rightarrow> bool" where
  "round_ends w n =
     (case conn_recv w n of
        Inl e \<Rightarrow> True
      | Inr chunk \<Rightarrow> chunk = [] \<or> sock_send_raises w (Suc n) \<noteq> None)"

subsection \<open>Worlds to run the code in\<close>

text \<open>
  The codec of these worlds is Latin-1: every byte decodes, a string encodes when all
  its code points are below 256. In \<open>dark_world\<close> the store is reachable and every
  HTTP call is answered with status 404 and an empty body that is not JSON. The
  other worlds change single fields of it.
\<close>

definition latin1_decode :: "bytes \<Rightarrow> pystr option" where
  "latin1_decode b = Some (map of_char b)"

definition latin1_encode :: "pystr \<Rightarrow> bytes option" where
  "latin1_encode s = (if list_all (\<lambda>c. c < 256) s then Some (map char_of s) else None)"

definition answer :: "int \<Rightarrow> bytes \<Rightarrow> exn + response" where
  "answer s b = Inr \<lparr>status_code = s, content = b, json_body = Inl (LibraryError (py ''not JSON''))\<rparr>"

definition dark_world :: world where
  "dark_world =
     \<lparr>tables = \<lparr>alnum_hi = (\<lambda>c. False), space_hi = (\<lambda>c. False)\<rparr>,
      client_decode = latin1_decode,
      client_encode = latin1_encode,
      exn_str = (\<lambda>e. case e of LibraryError m \<Rightarrow> m | _ \<Rightarrow> py ''error''),
      sha256_hexdigest = (\<lambda>u. u),
      utc_now = 0,
      librey_url = py ''https://serp.catswords.net'',
      es_get_raises = (\<lambda>i. None),
      es_index_raises = (\<lambda>i. None),
      wayback_get = (\<lambda>u. answer 404 []),
      snapshot_get = (\<lambda>u. answer 404 []),
      origin_get = (\<lambda>u. answer 404 []),
      serp_get = (\<lambda>u. answer 404 []),
      llm_post = (\<lambda>p. answer 404 []),
      sock_open_raises = None,
      tls_wrap_raises = None,
      sock_connect_raises = None,
      sock_send_raises = (\<lambda>n. None),
      conn_recv = (\<lambda>n. Inr [])\<rparr>"

definition get_request :: request where
  "get_request =
     \<lparr>req_data = ''GET http://example.org/ HTTP/1.1'',
      req_webserver = ''example.org'',
      req_port = py ''80'',
      req_scheme = ''http'',
      req_method = ''GET'',
      req_url = ''http://example.org/''\<rparr>"

definition post_request :: request where
  "post_request = get_request\<lparr>req_data := ''POST http://example.org/ HTTP/1.1'', req_method := ''POST''\<rparr>"

text \<open>The availability service answers 418; the availability service cannot be reached.\<close>

definition teapot_world :: world where
  "teapot_world = dark_world\<lparr>wayback_get := (\<lambda>u. answer 418 ''short and stout'')\<rparr>"

definition offline_world :: world where
  "offline_world = dark_world\<lparr>wayback_get := (\<lambda>u. Inl (LibraryError (py ''Connection refused'')))\<rparr>"

text \<open>The search answers 200 with the body \<open>S\<close>, the summarizer answers 502.\<close>

definition summary_down_world :: world where
  "summary_down_world =
     dark_world\<lparr>serp_get := (\<lambda>u. answer 200 ''S''), llm_post := (\<lambda>p. answer 502 [])\<rparr>"

text \<open>The cache holds the page of \<open>get_request\<close>; the origin answers 200 with the body \<open>B\<close>.\<close>

definition cached_docs :: "pystr \<rightharpoonup> document" where
  "cached_docs =
     [py ''http://example.org/'' \<mapsto>
        \<lparr>doc_url = py ''http://example.org/'', doc_content = py ''cached'', doc_timestamp = 0\<rparr>]"

definition origin_up_world :: world where
  "origin_up_world = dark_world\<lparr>origin_get := (\<lambda>u. answer 200 ''B'')\<rparr>"

text \<open>The origin answers 200 with the body \<open>B\<close> and the store refuses to index.\<close>

definition index_down_world :: world where
  "index_down_world =
     origin_up_world\<lparr>es_index_raises := (\<lambda>i. Some (LibraryError (py ''ConnectionTimeout'')))\<rparr>"

section \<open>Properties\<close>

subsection \<open>Traces and frames\<close>

lemma attempts_append: "attempts (xs @ ys) = attempts xs @ attempts ys"
  by (induction xs rule: attempts.induct) auto

lemma puts_append: "puts (xs @ ys) = puts xs @ puts ys"
  by (induction xs rule: puts.induct) auto

lemma error_logs_append: "error_logs (xs @ ys) = error_logs xs @ error_logs ys"
  by (induction xs rule: error_logs.induct) auto

lemma emit_fields:
  "connected (emit e f) = connected f" "buffered (emit e f) = buffered f"
  "store (emit e f) = store f" "trace (emit e f) = trace f @ [e]"
  by (simp_all add: emit_def)

lemma cache_fetch_frame:
  assumes "fetch_cache_from_elasticsearch w f u = (r, f')"
  shows "connected f' = connected f \<and> buffered f' = buffered f \<and> store f' = store f
       \<and> attempts (trace f') = attempts (trace f) \<and> puts (trace f') = puts (trace f)"
  using assms
  by (auto simp: fetch_cache_from_elasticsearch_def Let_def emit_fields attempts_append puts_append
      split: sum.splits option.splits if_splits)

lemma cache_fetch_answer:
  "store f = docs \<Longrightarrow> fst (fetch_cache_from_elasticsearch w f u) = cache_answer w docs u"
  by (auto simp: cache_answer_def initial_frame_def fetch_cache_from_elasticsearch_def Let_def
      split: sum.splits option.splits if_splits)

lemma push_frame:
  "connected (push_cache_to_elasticsearch w f u b) = connected f"
  "buffered (push_cache_to_elasticsearch w f u b) = buffered f"
  "attempts (trace (push_cache_to_elasticsearch w f u b)) = attempts (trace f)"
  "puts (trace (push_cache_to_elasticsearch w f u b)) = puts (trace f)"
  by (auto simp: push_cache_to_elasticsearch_def Let_def emit_fields attempts_append puts_append
      split: sum.splits option.splits)


lemma try_cache_effect:
  assumes "try_cache w u f = (r, f')"
  shows "r = None"
    and "connected f \<Longrightarrow> f' = f"
    and "\<not> connected f \<Longrightarrow>
           attempts (trace f') = attempts (trace f) @ [Cache] \<and> puts (trace f') = puts (trace f)
         \<and> store f' = store f
         \<and> (if fst (cache_answer w (store f) u) = 200
            then connected f' \<and> buffered f' = buffered f @ snd (cache_answer w (store f) u)
            else \<not> connected f' \<and> buffered f' = buffered f)"
proof -
  show "r = None" using assms by (auto simp: try_cache_def split: if_splits prod.splits)
  show "connected f \<Longrightarrow> f' = f" using assms by (simp add: try_cache_def)
  assume nc: "\<not> connected f"
  obtain s c g where g: "fetch_cache_from_elasticsearch w (emit (CacheGet u) f) u = ((s, c), g)"
    by (metis prod.exhaust)
  have ans: "cache_answer w (store f) u = (s, c)"
    using cache_fetch_answer [of "emit (CacheGet u) f" "store f" w u] g by (simp add: emit_fields)
  from cache_fetch_frame [OF g] nc assms g ans
  show "attempts (trace f') = attempts (trace f) @ [Cache] \<and> puts (trace f') = puts (trace f)
         \<and> store f' = store f
         \<and> (if fst (cache_answer w (store f) u) = 200
            then connected f' \<and> buffered f' = buffered f @ snd (cache_answer w (store f) u)
            else \<not> connected f' \<and> buffered f' = buffered f)"
    by (auto simp: try_cache_def emit_fields attempts_append puts_append split: if_splits)
qed

lemma try_archive_effect:
  assumes "try_archive w u f = (r, f')"
  shows "connected f \<Longrightarrow> r = None \<and> f' = f"
    and "\<not> connected f \<Longrightarrow>
           attempts (trace f') = attempts (trace f) @ [Archive] \<and> puts (trace f') = puts (trace f)
         \<and> store f' = store f
         \<and> (case fetch_cache_from_internet_archive w u of
              Inl e \<Rightarrow> r = Some e \<and> \<not> connected f' \<and> buffered f' = buffered f
            | Inr (s, c) \<Rightarrow> r = None \<and>
                (if s = 200 then connected f' \<and> buffered f' = buffered f @ c
                 else \<not> connected f' \<and> buffered f' = buffered f))"
  using assms
  by (auto simp: try_archive_def Let_def emit_fields attempts_append puts_append
      split: if_splits sum.splits prod.splits)

lemma try_origin_effect:
  assumes "try_origin w u f = (r, f')"
  shows "connected f \<Longrightarrow> r = None \<and> f' = f"
    and "\<not> connected f \<Longrightarrow>
           attempts (trace f') = attempts (trace f) @ [Origin]
         \<and> (case fetch_origin_server w u of
              Inl e \<Rightarrow> r = Some e \<and> \<not> connected f' \<and> buffered f' = buffered f
                       \<and> puts (trace f') = puts (trace f) \<and> store f' = store f
            | Inr (s, c) \<Rightarrow> r = None \<and>
                (if s = 200 then connected f' \<and> buffered f' = buffered f @ c
                                \<and> puts (trace f') = puts (trace f) @ [(u, buffered f @ c)]
                 else \<not> connected f' \<and> buffered f' = buffered f
                      \<and> puts (trace f') = puts (trace f) \<and> store f' = store f))"
  using assms
  by (auto simp: try_origin_def Let_def emit_fields push_frame attempts_append puts_append
      split: if_splits sum.splits prod.splits)

lemma try_search_effect:
  assumes "try_search w u f = (r, f')"
  shows "connected f \<Longrightarrow> r = None \<and> f' = f"
    and "\<not> connected f \<Longrightarrow>
           attempts (trace f') = attempts (trace f) @ [Search] \<and> puts (trace f') = puts (trace f)
         \<and> store f' = store f
         \<and> (case query_to_serp w u of
              Inl e \<Rightarrow> r = Some e \<and> \<not> connected f' \<and> buffered f' = buffered f
            | Inr (s, c) \<Rightarrow>
                (if s = 200 then
                   (case query_to_llm w c of
                      Inl e \<Rightarrow> r = Some e \<and> \<not> connected f' \<and> buffered f' = buffered f
                    | Inr (ls, lc) \<Rightarrow> r = None \<and> connected f' \<and> buffered f' = buffered f @ lc)
                 else r = None \<and> \<not> connected f' \<and> buffered f' = buffered f))"
  using assms
  by (auto simp: try_search_def Let_def emit_fields attempts_append puts_append
      split: if_splits sum.splits prod.splits)


lemma chain_unfold:
  assumes "try_cache w u f0 = (r1, f1)" "try_archive w u f1 = (r2, f2)"
    "try_origin w u f2 = (r3, f3)" "try_search w u f3 = (r4, f4)"
  shows "resolution_chain w u f0 =
     (case r1 of Some e \<Rightarrow> (Some e, f1) | None \<Rightarrow>
      (case r2 of Some e \<Rightarrow> (Some e, f2) | None \<Rightarrow>
       (case r3 of Some e \<Rightarrow> (Some e, f3) | None \<Rightarrow>
        (case r4 of Some e \<Rightarrow> (Some e, f4) | None \<Rightarrow> (None, emit (ConnSend (buffered f4)) f4)))))"
  using assms by (simp add: resolution_chain_def split: option.splits)

lemma initial_fields:
  "connected (initial_frame docs) = False" "buffered (initial_frame docs) = []"
  "store (initial_frame docs) = docs" "trace (initial_frame docs) = []"
  by (simp_all add: initial_frame_def)


lemma chain_observed:
  "observe (resolution_chain w u (initial_frame docs)) =
     (if fst (cache_answer w docs u) = 200
      then (None, True, snd (cache_answer w docs u), [Cache], [])
      else case fetch_cache_from_internet_archive w u of
        Inl e \<Rightarrow> (Some e, False, [], [Cache, Archive], [])
      | Inr (sa, ca) \<Rightarrow>
          if sa = 200 then (None, True, ca, [Cache, Archive], [])
          else case fetch_origin_server w u of
            Inl e \<Rightarrow> (Some e, False, [], [Cache, Archive, Origin], [])
          | Inr (so, co) \<Rightarrow>
              if so = 200 then (None, True, co, [Cache, Archive, Origin], [(u, co)])
              else case query_to_serp w u of
                Inl e \<Rightarrow> (Some e, False, [], [Cache, Archive, Origin, Search], [])
              | Inr (ss, cs) \<Rightarrow>
                  if ss = 200 then
                    (case query_to_llm w cs of
                       Inl e \<Rightarrow> (Some e, False, [], [Cache, Archive, Origin, Search], [])
                     | Inr (ls, lc) \<Rightarrow> (None, True, lc, [Cache, Archive, Origin, Search], []))
                  else (None, False, [], [Cache, Archive, Origin, Search], []))"
proof -
  obtain r1 f1 where 1: "try_cache w u (initial_frame docs) = (r1, f1)" by (metis prod.exhaust)
  obtain r2 f2 where 2: "try_archive w u f1 = (r2, f2)" by (metis prod.exhaust)
  obtain r3 f3 where 3: "try_origin w u f2 = (r3, f3)" by (metis prod.exhaust)
  obtain r4 f4 where 4: "try_search w u f3 = (r4, f4)" by (metis prod.exhaust)
  note e1 = try_cache_effect [OF 1] and e2 = try_archive_effect [OF 2]
    and e3 = try_origin_effect [OF 3] and e4 = try_search_effect [OF 4]
  have r1: "r1 = None" by (rule e1(1))
  have s1: "attempts (trace f1) = [Cache] \<and> puts (trace f1) = []
         \<and> (if fst (cache_answer w docs u) = 200
            then connected f1 \<and> buffered f1 = snd (cache_answer w docs u)
            else \<not> connected f1 \<and> buffered f1 = [])"
    using e1(3) by (simp add: initial_fields)
  have rf: "resolution_chain w u (initial_frame docs) =
      (case r2 of Some e \<Rightarrow> (Some e, f2) | None \<Rightarrow>
       (case r3 of Some e \<Rightarrow> (Some e, f3) | None \<Rightarrow>
        (case r4 of Some e \<Rightarrow> (Some e, f4) | None \<Rightarrow> (None, emit (ConnSend (buffered f4)) f4))))"
    using chain_unfold [OF 1 2 3 4] r1 by simp
  show ?thesis
  proof (cases "connected f1")
    case True
    with e2(1) e3(1) e4(1) s1 rf show ?thesis
      by (auto simp: observe_def emit_fields attempts_append puts_append split: if_splits)
  next
    case f1: False
    show ?thesis
    proof (cases "connected f2")
      case True
      with e2(2) [OF f1] e3(1) e4(1) s1 f1 rf show ?thesis
        by (auto simp: observe_def emit_fields attempts_append puts_append
            split: if_splits sum.splits prod.splits)
    next
      case f2: False
      show ?thesis
      proof (cases "connected f3")
        case True
        with e2(2) [OF f1] e3(2) [OF f2] e4(1) s1 f1 f2 rf show ?thesis
          by (auto simp: observe_def emit_fields attempts_append puts_append
              split: if_splits sum.splits prod.splits)
      next
        case f3: False
        with e2(2) [OF f1] e3(2) [OF f2] e4(2) [OF f3] s1 f1 f2 rf show ?thesis
          by (auto simp: observe_def emit_fields attempts_append puts_append
              split: if_splits sum.splits prod.splits)
      qed
    qed
  qed
qed


lemma connect_GET:
  assumes "req_method rq = ''GET''" "target_url w rq = Inr u"
  shows "connect w rq docs =
     (case resolution_chain w u (initial_frame docs) of
        (Some e, f) \<Rightarrow> Some (Inl e, f)
      | (None, f) \<Rightarrow> Some (Inr (connected f), f))"
  using assms by (simp add: connect_def initial_frame_def)

lemma chain_sends:
  assumes "resolution_chain w u f0 = (None, f)"
  shows "\<exists>tr. trace f = tr @ [ConnSend (buffered f)]"
  using assms
  by (auto simp: resolution_chain_def emit_def split: prod.splits option.splits)

lemma try_origin_store:
  assumes "try_origin w u f = (r, f')" "puts (trace f') = puts (trace f)"
  shows "store f' = store f"
proof (cases "connected f")
  case True
  with try_origin_effect(1) [OF assms(1)] show ?thesis by simp
next
  case False
  with try_origin_effect(2) [OF assms(1)] assms(2) show ?thesis
    by (auto split: sum.splits prod.splits if_splits)
qed

lemma chain_store:
  assumes "resolution_chain w u (initial_frame docs) = (r, f)" "puts (trace f) = []"
  shows "store f = docs"
proof -
  obtain r1 f1 where 1: "try_cache w u (initial_frame docs) = (r1, f1)" by (metis prod.exhaust)
  obtain r2 f2 where 2: "try_archive w u f1 = (r2, f2)" by (metis prod.exhaust)
  obtain r3 f3 where 3: "try_origin w u f2 = (r3, f3)" by (metis prod.exhaust)
  obtain r4 f4 where 4: "try_search w u f3 = (r4, f4)" by (metis prod.exhaust)
  note e1 = try_cache_effect [OF 1] and e2 = try_archive_effect [OF 2]
    and e3 = try_origin_effect [OF 3] and e4 = try_search_effect [OF 4]
  have s1: "store f1 = docs" "puts (trace f1) = []" using e1(3) by (simp_all add: initial_fields)
  have s2: "store f2 = docs" "puts (trace f2) = []"
    using e2 s1 by (cases "connected f1"; simp)+
  have s4: "store f4 = store f3" "puts (trace f4) = puts (trace f3)"
    using e4 by (cases "connected f3"; simp)+
  have s3: "puts (trace f3) = [] \<Longrightarrow> store f3 = docs"
    using try_origin_store [OF 3] s2 by simp
  have rf: "(r, f) =
      (case r2 of Some e \<Rightarrow> (Some e, f2) | None \<Rightarrow>
       (case r3 of Some e \<Rightarrow> (Some e, f3) | None \<Rightarrow>
        (case r4 of Some e \<Rightarrow> (Some e, f4) | None \<Rightarrow> (None, emit (ConnSend (buffered f4)) f4))))"
    using chain_unfold [OF 1 2 3 4] e1(1) assms(1) by simp
  from rf assms(2) s2 s3 s4 show ?thesis
    by (auto simp: emit_fields puts_append split: option.splits)
qed

lemma push_failure:
  assumes "client_decode w b = None \<or> es_index_raises w (generate_id w u) \<noteq> None"
  shows "store (push_cache_to_elasticsearch w g u b) = store g"
    and "\<exists>m. error_logs (trace (push_cache_to_elasticsearch w g u b)) =
           error_logs (trace g) @ [py ''Error caching to Elasticsearch: '' @ m]"
  using assms
  by (auto simp: push_cache_to_elasticsearch_def es_index_def Let_def emit_fields error_logs_append
      split: option.splits sum.splits)

lemma push_success:
  assumes "client_decode w b = Some t" "es_index_raises w (generate_id w u) = None"
  shows "push_cache_to_elasticsearch w g u b =
     g\<lparr>store := (store g)(generate_id w u \<mapsto> \<lparr>doc_url = u, doc_content = t, doc_timestamp = utc_now w\<rparr>)\<rparr>"
  using assms by (simp add: push_cache_to_elasticsearch_def es_index_def Let_def)

lemma chain_origin_hit:
  assumes "fst (cache_answer w docs u) \<noteq> 200"
    "fetch_cache_from_internet_archive w u = Inr (sa, ca)" "sa \<noteq> 200"
    "fetch_origin_server w u = Inr (200, B)"
  shows "\<exists>g. store g = docs \<and> buffered g = B \<and>
     resolution_chain w u (initial_frame docs) =
       (None, emit (ConnSend B) ((push_cache_to_elasticsearch w g u B)\<lparr>connected := True\<rparr>))"
proof -
  obtain r1 f1 where 1: "try_cache w u (initial_frame docs) = (r1, f1)" by (metis prod.exhaust)
  note e1 = try_cache_effect [OF 1]
  have s1: "\<not> connected f1" "buffered f1 = []" "store f1 = docs" "r1 = None"
    using e1(1,3) assms(1) by (simp_all add: initial_fields)
  have 2: "try_archive w u f1 = (None, emit (ArchiveFetch u) f1)"
    using s1 assms(2,3) by (simp add: try_archive_def Let_def)
  let ?f2 = "emit (ArchiveFetch u) f1"
  let ?g = "emit (CachePut u B) ((emit (OriginFetch u) ?f2)\<lparr>buffered := B\<rparr>)"
  let ?f3 = "(push_cache_to_elasticsearch w ?g u B)\<lparr>connected := True\<rparr>"
  have 3: "try_origin w u ?f2 = (None, ?f3)"
    using s1 assms(4) by (simp add: try_origin_def Let_def emit_fields)
  have 4: "try_search w u ?f3 = (None, ?f3)"
    by (simp add: try_search_def)
  have "resolution_chain w u (initial_frame docs) = (None, emit (ConnSend (buffered ?f3)) ?f3)"
    using chain_unfold [OF 1 2 3 4] s1 by simp
  moreover have "buffered ?f3 = B" by (simp add: push_frame emit_fields)
  moreover have "store ?g = docs \<and> buffered ?g = B" using s1 by (simp add: emit_fields)
  ultimately show ?thesis by metis
qed

subsection \<open>The search query\<close>


lemma sub_char_class: "re_word u (sub_char u c) \<or> re_space u (sub_char u c)"
  by (simp add: sub_char_def re_space_def ascii_space_def)

lemma space32: "re_space u 32"
  by (simp add: re_space_def ascii_space_def)

lemma serp_query_chars: "c \<in> set (serp_query u url) \<Longrightarrow> re_word u c \<or> re_space u c"
  using sub_char_class [of u] space32 [of u]
  by (auto simp: serp_query_def split: if_splits)

lemma startswith_mem: "startswith xs (p # ps) \<Longrightarrow> p \<in> set xs"
  by (cases xs) auto

lemma contains_mem: "contains (p # ps) xs \<Longrightarrow> p \<in> set xs"
  by (induction xs) (auto dest: startswith_mem)

lemma colon_special: "\<not> re_word u 58 \<and> \<not> re_space u 58"
  by (simp add: re_word_def re_space_def is_alnum_def ascii_alnum_def ascii_space_def)

lemma startswith_append: "startswith (p @ xs) p"
  by (induction p) auto

text \<open>
  C7, as the code has it. The query is the url with a leading \<^verbatim>\<open>http://\<close> or
  \<^verbatim>\<open>https://\<close> replaced by one space and every other character replaced by a space
  unless it is alphanumeric, an underscore or whitespace. So every character of the
  query is alphanumeric, an underscore or whitespace, and the query does not contain
  \<^verbatim>\<open>://\<close>. For \<^verbatim>\<open>https://example.com/foo-bar?x=1\<close> the query is
  \<^verbatim>\<open> example com foo bar x 1\<close>.
\<close>


theorem serp_query_sanitized:
  "(\<forall>c \<in> set (serp_query u url). is_alnum u c \<or> c = 95 \<or> re_space u c)
   \<and> \<not> contains (py ''://'') (serp_query u url)
   \<and> serp_query u (py ''https://'' @ rest) = 32 # map (sub_char u) rest
   \<and> serp_query u (py ''http://'' @ rest) = 32 # map (sub_char u) rest
   \<and> (\<not> startswith url (py ''https://'') \<and> \<not> startswith url (py ''http://'')
        \<longrightarrow> serp_query u url = map (sub_char u) url)
   \<and> sub_char u c = (if is_alnum u c \<or> c = 95 \<or> re_space u c then c else 32)
   \<and> serp_query u (py ''https://example.com/foo-bar?x=1'') = py '' example com foo bar x 1''"
proof -
  have a: "\<forall>c \<in> set (serp_query u url). is_alnum u c \<or> c = 95 \<or> re_space u c"
    using serp_query_chars [of _ u url] by (auto simp: re_word_def)
  have b: "\<not> contains (py ''://'') (serp_query u url)"
  proof
    assume "contains (py ''://'') (serp_query u url)"
    then have "58 \<in> set (serp_query u url)"
      using contains_mem [of 58 "[47, 47]" "serp_query u url"] by (simp add: py_def)
    with serp_query_chars [of 58 u url] colon_special [of u] show False by simp
  qed
  have c: "serp_query u (py ''https://'' @ rest) = 32 # map (sub_char u) rest"
    using startswith_append [of "py ''https://''" rest]
    by (simp add: serp_query_def) (simp add: py_def)
  have d: "serp_query u (py ''http://'' @ rest) = 32 # map (sub_char u) rest"
    using startswith_append [of "py ''http://''" rest]
    by (simp add: serp_query_def) (simp add: py_def)
  have e: "sub_char u c = (if is_alnum u c \<or> c = 95 \<or> re_space u c then c else 32)"
    by (simp add: sub_char_def re_word_def)
  have f: "serp_query u (py ''https://example.com/foo-bar?x=1'') = py '' example com foo bar x 1''"
    by (simp add: serp_query_def py_def sub_char_def re_word_def re_space_def is_alnum_def
        ascii_alnum_def ascii_space_def)
  from a b c d e f show ?thesis by (simp add: serp_query_def)
qed

theorem serp_query_sanitized_witness:
  "list_all (\<lambda>c. is_alnum (tables dark_world) c \<or> c = 95 \<or> re_space (tables dark_world) c)
     (serp_query (tables dark_world) (py ''http://a_b/c?d''))
   \<and> \<not> contains (py ''://'') (serp_query (tables dark_world) (py ''http://a_b/c?d''))
   \<and> serp_query (tables dark_world) (py ''http://a_b/c?d'') = py '' a_b c d''"
proof -
  have "serp_query (tables dark_world) (py ''http://a_b/c?d'') = py '' a_b c d''"
    by code_simp
  with serp_query_sanitized [of "tables dark_world" "py ''http://a_b/c?d''"]
  show ?thesis by (simp add: list_all_iff)
qed

text \<open>
  C7, as the claim states it, fails on an underscore: \<^verbatim>\<open>\w\<close> matches it, so it stays in
  the query, and it is neither alphanumeric nor whitespace.
\<close>


theorem serp_query_underscore_counterexample:
  "serp_query (tables dark_world) (py ''http://a_b'') = py '' a_b''
   \<and> 95 \<in> set (serp_query (tables dark_world) (py ''http://a_b''))
   \<and> \<not> is_alnum (tables dark_world) 95 \<and> \<not> re_space (tables dark_world) 95"
  by code_simp

subsection \<open>The archive\<close>


text \<open>
  C10. When the availability service answers with a status \<open>s\<close> other than 200,
  \<^verbatim>\<open>fetch_cache_from_internet_archive\<close> returns \<open>s\<close> itself with an empty body.
\<close>


theorem archive_status_passthrough:
  assumes "wayback_get w (py ''http://archive.org/wayback/available?url='' @ url) = Inr response"
    and "status_code response \<noteq> 200"
  shows "fetch_cache_from_internet_archive w url = Inr (status_code response, [])"
  using assms by (simp add: fetch_cache_from_internet_archive_def)

theorem archive_status_passthrough_witness:
  "fetch_cache_from_internet_archive teapot_world (py ''http://example.org/'') = Inr (418, [])"
proof -
  have 1: "wayback_get teapot_world (py ''http://archive.org/wayback/available?url='' @ py ''http://example.org/'')
            = Inr \<lparr>status_code = 418, content = ''short and stout'',
                   json_body = Inl (LibraryError (py ''not JSON''))\<rparr>"
    by (simp add: teapot_world_def answer_def)
  have 2: "status_code \<lparr>status_code = 418, content = ''short and stout'',
                   json_body = Inl (LibraryError (py ''not JSON''))\<rparr> \<noteq> 200"
    by simp
  from archive_status_passthrough [OF 1 2] show ?thesis by simp
qed

text \<open>
  C2 says that no exception of the availability lookup leaves
  \<^verbatim>\<open>fetch_cache_from_internet_archive\<close>. The request of line 47 stands before the
  \<^verbatim>\<open>try\<close>: when it raises, the function raises, and so does \<^verbatim>\<open>connect\<close>, after
  the cache and the archive were tried and before anything is sent to the client.
\<close>


theorem archive_lookup_exception_escapes:
  "fetch_cache_from_internet_archive offline_world (py ''http://example.org/'')
     = Inl (LibraryError (py ''Connection refused''))
   \<and> map_option (\<lambda>(r, f). (r, attempts (trace f))) (connect offline_world get_request Map.empty)
     = Some (Inl (LibraryError (py ''Connection refused'')), [Cache, Archive])"
  by code_simp

subsection \<open>Search and summary\<close>


text \<open>
  C1 says that the body of the search is returned when the summarizer fails. Line 241
  tests the status of the search, which is 200 on this path, so the body that the
  summarizer returned is sent whatever its status: here the text of its error.
\<close>


theorem failed_summary_replaces_search_results:
  "query_to_serp summary_down_world (py ''http://example.org/'') = Inr (200, ''S'')
   \<and> query_to_llm summary_down_world ''S'' = Inr (502, ''ChatGPT API returned status code 502'')
   \<and> map_option (\<lambda>(r, f). (r, buffered f)) (connect summary_down_world get_request Map.empty)
     = Some (Inr True, ''ChatGPT API returned status code 502'')"
  by code_simp

subsection \<open>The chain of a GET request\<close>


lemma chain_result:
  "resolution_chain w u f0 = (r, f) \<Longrightarrow> observe (resolution_chain w u f0)
     = (r, connected f, buffered f, attempts (trace f), puts (trace f))"
  by (simp add: observe_def)

lemma cache_hit_silent:
  "fst (fst (fetch_cache_from_elasticsearch w f u)) = 200 \<Longrightarrow>
   snd (fetch_cache_from_elasticsearch w f u) = f"
  by (auto simp: fetch_cache_from_elasticsearch_def Let_def split: sum.splits option.splits if_splits)

lemma chain_cache_hit:
  assumes "fst (cache_answer w docs u) = 200"
  shows "resolution_chain w u (initial_frame docs) =
     (None, \<lparr>connected = True, buffered = snd (cache_answer w docs u), store = docs,
             trace = [CacheGet u, ConnSend (snd (cache_answer w docs u))]\<rparr>)"
proof -
  let ?g = "emit (CacheGet u) (initial_frame docs)"
  have a: "fst (fetch_cache_from_elasticsearch w ?g u) = cache_answer w docs u"
    by (rule cache_fetch_answer) (simp add: emit_fields initial_fields)
  with assms have b: "snd (fetch_cache_from_elasticsearch w ?g u) = ?g"
    by (simp add: cache_hit_silent)
  obtain c where c: "cache_answer w docs u = (200, c)"
    using assms by (cases "cache_answer w docs u") simp
  from a b c have d: "fetch_cache_from_elasticsearch w ?g u = ((200, c), ?g)"
    by (metis prod.collapse)
  have 1: "try_cache w u (initial_frame docs) = (None, ?g\<lparr>buffered := c, connected := True\<rparr>)"
    using d by (simp add: try_cache_def initial_fields emit_fields)
  let ?f1 = "?g\<lparr>buffered := c, connected := True\<rparr>"
  have 2: "try_archive w u ?f1 = (None, ?f1)" by (simp add: try_archive_def)
  have 3: "try_origin w u ?f1 = (None, ?f1)" by (simp add: try_origin_def)
  have 4: "try_search w u ?f1 = (None, ?f1)" by (simp add: try_search_def)
  show ?thesis
    using chain_unfold [OF 1 2 3 4] c by (simp add: emit_def initial_frame_def)
qed

lemma chain_attempts:
  "attempts (trace (snd (resolution_chain w u (initial_frame docs))))
     \<in> set [[Cache], [Cache, Archive], [Cache, Archive, Origin], [Cache, Archive, Origin, Search]]"
proof -
  have "attempts (trace (snd (resolution_chain w u (initial_frame docs))))
      = fst (snd (snd (snd (observe (resolution_chain w u (initial_frame docs))))))"
    by (simp add: observe_def)
  then show ?thesis
    unfolding chain_observed by (simp split: sum.splits prod.splits)
qed

text \<open>
  C4. A GET request returns or raises, and the sources it has called by then are
  a prefix of cache, archive, origin, search, in this order and each at most once. When
  the cache answers 200, \<^verbatim>\<open>connect\<close> returns \<open>True\<close> and the whole trace is the cache
  lookup and the write of the cached body to the client: no other source is called.
\<close>


theorem cache_hit_short_circuits:
  assumes "req_method rq = ''GET''" and "target_url w rq = Inr u"
  shows "\<exists>r f. connect w rq docs = Some (r, f)
     \<and> attempts (trace f)
          \<in> set [[Cache], [Cache, Archive], [Cache, Archive, Origin], [Cache, Archive, Origin, Search]]
     \<and> (fst (cache_answer w docs u) = 200 \<longrightarrow>
          r = Inr True \<and> attempts (trace f) = [Cache]
        \<and> trace f = [CacheGet u, ConnSend (snd (cache_answer w docs u))])"
proof -
  obtain r f where rf: "resolution_chain w u (initial_frame docs) = (r, f)" by (metis prod.exhaust)
  have a: "attempts (trace f)
     \<in> set [[Cache], [Cache, Archive], [Cache, Archive, Origin], [Cache, Archive, Origin, Search]]"
    using chain_attempts [of w u docs] rf by simp
  have c: "connect w rq docs = Some (case r of Some e \<Rightarrow> Inl e | None \<Rightarrow> Inr (connected f), f)"
    using connect_GET [OF assms, of docs] rf by (simp split: option.splits)
  have h: "fst (cache_answer w docs u) = 200 \<Longrightarrow>
      r = None \<and> connected f \<and> trace f = [CacheGet u, ConnSend (snd (cache_answer w docs u))]"
    using chain_cache_hit [of w docs u] rf by auto
  from a c h show ?thesis by auto
qed

theorem cache_hit_short_circuits_witness:
  "\<exists>f. connect dark_world get_request cached_docs = Some (Inr True, f)
     \<and> trace f = [CacheGet (py ''http://example.org/''), ConnSend ''cached'']"
proof -
  have 1: "req_method get_request = ''GET''" by (simp add: get_request_def)
  have 2: "target_url dark_world get_request = Inr (py ''http://example.org/'')" by code_simp
  have 3: "cache_answer dark_world cached_docs (py ''http://example.org/'') = (200, ''cached'')"
    by code_simp
  from cache_hit_short_circuits [OF 1 2, of cached_docs] 3 show ?thesis by auto
qed

text \<open>
  C3. When the cache and the archive return a status other than 200 and the origin
  returns 200 with the body \<open>B\<close>, a GET request returns \<open>True\<close>, the body sent to the
  client is \<open>B\<close>, and \<^verbatim>\<open>push_cache_to_elasticsearch\<close> is called once, with the url and
  \<open>B\<close>. A GET request that calls it at all is such a request, and calls it once.
\<close>


theorem origin_hit_backfills:
  assumes "req_method rq = ''GET''" and "target_url w rq = Inr u"
  shows "(fst (cache_answer w docs u) \<noteq> 200
          \<and> fetch_cache_from_internet_archive w u = Inr (sa, ca) \<and> sa \<noteq> 200
          \<and> fetch_origin_server w u = Inr (200, B)
        \<longrightarrow> (\<exists>f tr. connect w rq docs = Some (Inr True, f) \<and> buffered f = B
               \<and> trace f = tr @ [ConnSend B] \<and> puts (trace f) = [(u, B)]))
     \<and> (\<forall>r f. connect w rq docs = Some (r, f) \<and> puts (trace f) \<noteq> [] \<longrightarrow>
          (\<exists>sa' ca' B'. fst (cache_answer w docs u) \<noteq> 200
             \<and> fetch_cache_from_internet_archive w u = Inr (sa', ca') \<and> sa' \<noteq> 200
             \<and> fetch_origin_server w u = Inr (200, B') \<and> puts (trace f) = [(u, B')]))"
proof (intro conjI impI allI)
  assume h: "fst (cache_answer w docs u) \<noteq> 200
          \<and> fetch_cache_from_internet_archive w u = Inr (sa, ca) \<and> sa \<noteq> 200
          \<and> fetch_origin_server w u = Inr (200, B)"
  obtain r f where rf: "resolution_chain w u (initial_frame docs) = (r, f)" by (metis prod.exhaust)
  have "(r, connected f, buffered f, attempts (trace f), puts (trace f))
      = (None, True, B, [Cache, Archive, Origin], [(u, B)])"
    using chain_observed [of w u docs] h chain_result [OF rf] by simp
  then have o: "r = None" "connected f" "buffered f = B" "puts (trace f) = [(u, B)]" by simp_all
  from chain_sends [of w u "initial_frame docs" f] rf o
  obtain tr where "trace f = tr @ [ConnSend B]" by auto
  moreover have "connect w rq docs = Some (Inr True, f)"
    using connect_GET [OF assms, of docs] rf o by simp
  ultimately show "\<exists>f tr. connect w rq docs = Some (Inr True, f) \<and> buffered f = B
               \<and> trace f = tr @ [ConnSend B] \<and> puts (trace f) = [(u, B)]"
    using o by blast
next
  fix r f
  assume h: "connect w rq docs = Some (r, f) \<and> puts (trace f) \<noteq> []"
  obtain r' f' where rf: "resolution_chain w u (initial_frame docs) = (r', f')"
    by (metis prod.exhaust)
  have f: "f' = f" using connect_GET [OF assms, of docs] rf h by (auto split: option.splits)
  have "snd (snd (snd (snd (observe (resolution_chain w u (initial_frame docs)))))) \<noteq> []"
    using h rf f by (simp add: observe_def)
  then have "\<exists>sa' ca' B'. fst (cache_answer w docs u) \<noteq> 200
             \<and> fetch_cache_from_internet_archive w u = Inr (sa', ca') \<and> sa' \<noteq> 200
             \<and> fetch_origin_server w u = Inr (200, B')
             \<and> snd (snd (snd (snd (observe (resolution_chain w u (initial_frame docs)))))) = [(u, B')]"
    unfolding chain_observed by (auto split: if_splits sum.splits prod.splits)
  then show "\<exists>sa' ca' B'. fst (cache_answer w docs u) \<noteq> 200
             \<and> fetch_cache_from_internet_archive w u = Inr (sa', ca') \<and> sa' \<noteq> 200
             \<and> fetch_origin_server w u = Inr (200, B') \<and> puts (trace f) = [(u, B')]"
    using rf f by (simp add: observe_def)
qed

theorem origin_hit_backfills_witness:
  "\<exists>f tr. connect origin_up_world get_request Map.empty = Some (Inr True, f) \<and> buffered f = ''B''
     \<and> trace f = tr @ [ConnSend ''B''] \<and> puts (trace f) = [(py ''http://example.org/'', ''B'')]"
proof -
  have 1: "req_method get_request = ''GET''" by (simp add: get_request_def)
  have 2: "target_url origin_up_world get_request = Inr (py ''http://example.org/'')" by code_simp
  have 3: "fst (cache_answer origin_up_world Map.empty (py ''http://example.org/'')) \<noteq> 200
     \<and> fetch_cache_from_internet_archive origin_up_world (py ''http://example.org/'') = Inr (404, [])
     \<and> (404::int) \<noteq> 200
     \<and> fetch_origin_server origin_up_world (py ''http://example.org/'') = Inr (200, ''B'')"
    by code_simp
  from origin_hit_backfills [OF 1 2, of Map.empty 404 "[]" "''B''"] 3 show ?thesis by blast
qed

text \<open>
  C5. When the cache, the archive, the origin and the search all return a status other
  than 200, a GET request returns \<open>False\<close>, the body sent to the client is empty,
  \<^verbatim>\<open>push_cache_to_elasticsearch\<close> is not called and the store keeps its documents. A GET
  request that returns \<open>False\<close> is such a request.
\<close>


theorem exhaustion_returns_false:
  assumes "req_method rq = ''GET''" and "target_url w rq = Inr u"
  shows "(fst (cache_answer w docs u) \<noteq> 200
          \<and> fetch_cache_from_internet_archive w u = Inr (sa, ca) \<and> sa \<noteq> 200
          \<and> fetch_origin_server w u = Inr (so, co) \<and> so \<noteq> 200
          \<and> query_to_serp w u = Inr (ss, cs) \<and> ss \<noteq> 200
        \<longrightarrow> (\<exists>f tr. connect w rq docs = Some (Inr False, f) \<and> buffered f = []
               \<and> trace f = tr @ [ConnSend []] \<and> puts (trace f) = [] \<and> store f = docs))
     \<and> (\<forall>f. connect w rq docs = Some (Inr False, f) \<longrightarrow>
          fst (cache_answer w docs u) \<noteq> 200
        \<and> (\<exists>sa' ca'. fetch_cache_from_internet_archive w u = Inr (sa', ca') \<and> sa' \<noteq> 200)
        \<and> (\<exists>so' co'. fetch_origin_server w u = Inr (so', co') \<and> so' \<noteq> 200)
        \<and> (\<exists>ss' cs'. query_to_serp w u = Inr (ss', cs') \<and> ss' \<noteq> 200))"
proof -
  have hit: "\<exists>f tr. connect w rq docs = Some (Inr False, f) \<and> buffered f = []
               \<and> trace f = tr @ [ConnSend []] \<and> puts (trace f) = [] \<and> store f = docs"
    if h: "fst (cache_answer w docs u) \<noteq> 200
          \<and> fetch_cache_from_internet_archive w u = Inr (sa, ca) \<and> sa \<noteq> 200
          \<and> fetch_origin_server w u = Inr (so, co) \<and> so \<noteq> 200
          \<and> query_to_serp w u = Inr (ss, cs) \<and> ss \<noteq> 200"
  proof -
    obtain r f where rf: "resolution_chain w u (initial_frame docs) = (r, f)"
      by (metis prod.exhaust)
    have "(r, connected f, buffered f, attempts (trace f), puts (trace f))
        = (None, False, [], [Cache, Archive, Origin, Search], [])"
      using chain_observed [of w u docs] h chain_result [OF rf] by simp
    then have o: "r = None" "\<not> connected f" "buffered f = []" "puts (trace f) = []" by simp_all
    from chain_sends [of w u "initial_frame docs" f] rf o
    obtain tr where "trace f = tr @ [ConnSend []]" by auto
    moreover have "connect w rq docs = Some (Inr False, f)"
      using connect_GET [OF assms, of docs] rf o by simp
    moreover have "store f = docs" using chain_store [OF rf o(4)] .
    ultimately show ?thesis using o by blast
  qed
  have only: "fst (cache_answer w docs u) \<noteq> 200
        \<and> (\<exists>sa' ca'. fetch_cache_from_internet_archive w u = Inr (sa', ca') \<and> sa' \<noteq> 200)
        \<and> (\<exists>so' co'. fetch_origin_server w u = Inr (so', co') \<and> so' \<noteq> 200)
        \<and> (\<exists>ss' cs'. query_to_serp w u = Inr (ss', cs') \<and> ss' \<noteq> 200)"
    if h: "connect w rq docs = Some (Inr False, f)" for f
  proof -
    obtain r' f' where rf: "resolution_chain w u (initial_frame docs) = (r', f')"
      by (metis prod.exhaust)
    have f: "r' = None \<and> \<not> connected f'"
      using connect_GET [OF assms, of docs] rf h by (auto split: option.splits)
    have "fst (observe (resolution_chain w u (initial_frame docs))) = None
        \<and> \<not> fst (snd (observe (resolution_chain w u (initial_frame docs))))"
      using rf f by (simp add: observe_def)
    then show ?thesis
      unfolding chain_observed by (auto split: if_splits sum.splits prod.splits)
  qed
  from hit only show ?thesis by blast
qed

theorem exhaustion_returns_false_witness:
  "\<exists>f tr. connect dark_world get_request Map.empty = Some (Inr False, f) \<and> buffered f = []
     \<and> trace f = tr @ [ConnSend []] \<and> puts (trace f) = [] \<and> store f = Map.empty"
proof -
  have 1: "req_method get_request = ''GET''" by (simp add: get_request_def)
  have 2: "target_url dark_world get_request = Inr (py ''http://example.org/'')" by code_simp
  have 3: "fst (cache_answer dark_world Map.empty (py ''http://example.org/'')) \<noteq> 200
     \<and> fetch_cache_from_internet_archive dark_world (py ''http://example.org/'') = Inr (404, [])
     \<and> (404::int) \<noteq> 200
     \<and> fetch_origin_server dark_world (py ''http://example.org/'') = Inr (404, []) \<and> (404::int) \<noteq> 200
     \<and> query_to_serp dark_world (py ''http://example.org/'')
         = Inr (404, ''SERP API server returned status code 404'') \<and> (404::int) \<noteq> 200"
    by code_simp
  from exhaustion_returns_false [OF 1 2, of Map.empty 404 "[]" 404 "[]" 404
      "''SERP API server returned status code 404''"] 3
  show ?thesis by blast
qed

text \<open>
  C8. When the origin is reached and returns 200 with the body \<open>B\<close>, and the cache write
  fails (\<open>B\<close> does not decode, or the store raises on the index call), a GET request
  still returns \<open>True\<close> and sends \<open>B\<close> to the client; the failure is logged as an error
  and the store keeps its documents.
\<close>


theorem cache_put_failure_swallowed:
  assumes "req_method rq = ''GET''" and "target_url w rq = Inr u"
    and "fst (cache_answer w docs u) \<noteq> 200"
    and "fetch_cache_from_internet_archive w u = Inr (sa, ca)" and "sa \<noteq> 200"
    and "fetch_origin_server w u = Inr (200, B)"
    and "client_decode w B = None \<or> es_index_raises w (generate_id w u) \<noteq> None"
  shows "\<exists>f tr m. connect w rq docs = Some (Inr True, f) \<and> buffered f = B
     \<and> trace f = tr @ [ConnSend B] \<and> store f = docs
     \<and> py ''Error caching to Elasticsearch: '' @ m \<in> set (error_logs (trace f))"
proof -
  from chain_origin_hit [OF assms(3-6)] obtain g where g: "store g = docs" "buffered g = B"
    and c: "resolution_chain w u (initial_frame docs) =
       (None, emit (ConnSend B) ((push_cache_to_elasticsearch w g u B)\<lparr>connected := True\<rparr>))"
    by blast
  let ?f = "emit (ConnSend B) ((push_cache_to_elasticsearch w g u B)\<lparr>connected := True\<rparr>)"
  from push_failure(2) [OF assms(7), of g] obtain m where
    m: "error_logs (trace (push_cache_to_elasticsearch w g u B)) =
           error_logs (trace g) @ [py ''Error caching to Elasticsearch: '' @ m]" by blast
  have 1: "connect w rq docs = Some (Inr True, ?f)"
    using connect_GET [OF assms(1,2), of docs] c by (simp add: emit_fields)
  have 2: "buffered ?f = B" using g by (simp add: emit_fields push_frame)
  have 3: "trace ?f = trace (push_cache_to_elasticsearch w g u B) @ [ConnSend B]"
    by (simp add: emit_fields)
  have 4: "store ?f = docs" using push_failure(1) [OF assms(7), of g] g by (simp add: emit_fields)
  have 5: "py ''Error caching to Elasticsearch: '' @ m \<in> set (error_logs (trace ?f))"
    using m by (simp add: emit_fields error_logs_append)
  from 1 2 3 4 5 show ?thesis by blast
qed

theorem cache_put_failure_swallowed_witness:
  "\<exists>f tr m. connect index_down_world get_request Map.empty = Some (Inr True, f) \<and> buffered f = ''B''
     \<and> trace f = tr @ [ConnSend ''B''] \<and> store f = Map.empty
     \<and> py ''Error caching to Elasticsearch: '' @ m \<in> set (error_logs (trace f))"
proof -
  have 1: "req_method get_request = ''GET''" by (simp add: get_request_def)
  have 2: "target_url index_down_world get_request = Inr (py ''http://example.org/'')"
    by code_simp
  have 3: "fst (cache_answer index_down_world Map.empty (py ''http://example.org/'')) \<noteq> 200"
    by code_simp
  have 4: "fetch_cache_from_internet_archive index_down_world (py ''http://example.org/'') = Inr (404, [])"
    by code_simp
  have 5: "(404::int) \<noteq> 200" by simp
  have 6: "fetch_origin_server index_down_world (py ''http://example.org/'') = Inr (200, ''B'')"
    by code_simp
  have 7: "client_decode index_down_world ''B'' = None
     \<or> es_index_raises index_down_world (generate_id index_down_world (py ''http://example.org/'')) \<noteq> None"
    by (simp add: index_down_world_def)
  from cache_put_failure_swallowed [OF 1 2 3 4 5 6 7] show ?thesis .
qed

end
